theory Spec2Isabelle
  imports Main "HOL-Library.Sublist"
begin

section \<open>The job portal backend: data model\<close>

text \<open>
  The backend is an Express application over three Mongoose collections (users, jobs,
  applications). A collection is a list of documents in insertion order. An ObjectId is
  its 24-digit lower-case hexadecimal text; a request carries identifiers as strings
  that Mongoose casts.
\<close>

type_synonym oid = string

text \<open>\<^verbatim>\<open>res.status(code).json({ message })\<close>: the status code and the message.\<close>

datatype failure = Fail nat string

text \<open>
  What a store call throws: a CastError (a string that is no ObjectId), the duplicate
  key error of a unique index (\<^verbatim>\<open>error.code === 11000\<close>), a ValidationError with its
  message. \<open>messageOf\<close> stands for \<^verbatim>\<open>error.message\<close>, whose text the library writes.
\<close>

datatype thrown = CastError | DuplicateKey | ValidationError string

fun messageOf :: "thrown \<Rightarrow> string" where
  "messageOf CastError = ''Cast to ObjectId failed''"
| "messageOf DuplicateKey = ''E11000 duplicate key error''"
| "messageOf (ValidationError m) = m"

text \<open>userModel.js. The timestamps, which no handler below reads, are left out.\<close>

record user =
  u_id :: oid
  name :: string
  email :: string
  password :: string
  role :: string
  profile :: "(string \<times> string) list"

text \<open>jobModel.js, with the fields the route handlers below read or write.\<close>

record job =
  j_id :: oid
  title :: string
  company :: string
  location :: string
  jobType :: string
  description :: string
  category :: "string option"
  postedBy :: oid
  isActive :: bool
  applicationCount :: int
  createdAt :: nat

text \<open>applicationModel.js.\<close>

record application =
  a_id :: oid
  job :: oid
  applicant :: oid
  status :: string
  coverLetter :: "string option"
  resume :: "string option"
  portfolio :: "string option"
  linkedin :: "string option"
  github :: "string option"
  expectedSalary :: "string option"
  availability :: "string option"
  additionalInfo :: "string option"
  appliedAt :: nat

record db =
  users :: "user list"
  jobs :: "job list"
  applications :: "application list"

text \<open>
  A JSON value of an update payload: a string, or an object of strings (one level of
  nesting, which is what an update operator such as \<^verbatim>\<open>$set\<close> takes).
\<close>

datatype jval = JStr string | JObj "(string \<times> string) list"

text \<open>
  The libraries the handlers call and the repository does not contain:
  \<^item> \<^verbatim>\<open>jwt.verify(token, JWT_SECRET)\<close>: the \<^verbatim>\<open>id\<close> of the decoded payload, or \<open>None\<close>
    where it throws (malformed, expired, bad signature);
  \<^item> \<^verbatim>\<open>jwt.sign({ id }, JWT_SECRET, ...)\<close>;
  \<^item> \<^verbatim>\<open>bcrypt.hash(password, 12)\<close>;
  \<^item> the store's \<^verbatim>\<open>{ $regex: p, $options: "i" }\<close>: the compiled, unanchored,
    case-insensitive matcher of pattern \<open>p\<close>, or \<open>None\<close> where \<open>p\<close> is not a regular
    expression and the query fails;
  \<^item> Mongoose's application of an update document to a user
    (\<^verbatim>\<open>findByIdAndUpdate(id, updates, { new: true, runValidators: true })\<close>): the updated
    document, or the error it throws.
\<close>

record lib =
  jwt_verify :: "string \<Rightarrow> string option"
  jwt_sign :: "oid \<Rightarrow> string"
  bcrypt_hash :: "string \<Rightarrow> string"
  regex_i :: "string \<Rightarrow> (string \<Rightarrow> bool) option"
  user_update :: "(string \<times> jval) list \<Rightarrow> user \<Rightarrow> thrown + user"

text \<open>
  A handler is suspended at every \<^verbatim>\<open>await\<close> on the store, and other requests run
  meanwhile. \<open>iv k\<close> is what they do to the store between the handler's \<open>k\<close>-th store
  operation and its next one (\<open>iv 0\<close>: after the lookup of the authentication
  middleware). \<open>quiet\<close> is the run with no other request.
\<close>

type_synonym interleave = "nat \<Rightarrow> db \<Rightarrow> db"

definition quiet :: interleave where
  "quiet = (\<lambda>k d. d)"

section \<open>Strings and identifiers\<close>

definition lowerChar :: "char \<Rightarrow> char" where
  "lowerChar c =
     (case map_of (zip ''ABCDEFGHIJKLMNOPQRSTUVWXYZ'' ''abcdefghijklmnopqrstuvwxyz'') c of
        Some l \<Rightarrow> l
      | None \<Rightarrow> c)"

definition toLowerCase :: "string \<Rightarrow> string" where
  "toLowerCase s = map lowerChar s"

definition isHexDigit :: "char \<Rightarrow> bool" where
  "isHexDigit c = (c \<in> set ''0123456789abcdefABCDEF'')"

text \<open>
  Mongoose's cast of a request string to an ObjectId: 24 hexadecimal digits (the test
  \<^verbatim>\<open>/^[0-9a-fA-F]{24}$/\<close> that applicationsRoute.js writes out), read without regard to
  case. Any other string is a CastError.
\<close>

definition castObjectId :: "string \<Rightarrow> oid option" where
  "castObjectId s =
     (if length s = 24 \<and> list_all isHexDigit s then Some (toLowerCase s) else None)"

text \<open>\<^verbatim>\<open>s.replace(p, "")\<close> with a string pattern: the first occurrence of \<open>p\<close> is removed.\<close>

fun removeFirst :: "string \<Rightarrow> string \<Rightarrow> string" where
  "removeFirst p [] = []"
| "removeFirst p (c # cs) =
     (if prefix p (c # cs) then drop (length p) (c # cs) else c # removeFirst p cs)"

section \<open>Store operations\<close>

definition User_findById :: "db \<Rightarrow> oid \<Rightarrow> user option" where
  "User_findById d i = find (\<lambda>u. u_id u = i) (users d)"

definition Job_findById :: "db \<Rightarrow> oid \<Rightarrow> job option" where
  "Job_findById d i = find (\<lambda>j. j_id j = i) (jobs d)"

definition Application_findById :: "db \<Rightarrow> oid \<Rightarrow> application option" where
  "Application_findById d i = find (\<lambda>a. a_id a = i) (applications d)"

definition Application_findOne :: "db \<Rightarrow> oid \<Rightarrow> oid \<Rightarrow> application option" where
  "Application_findOne d j u = find (\<lambda>a. job a = j \<and> applicant a = u) (applications d)"


text \<open>The first document that matches is replaced, or removed.\<close>

fun updateFirst :: "('a \<Rightarrow> bool) \<Rightarrow> ('a \<Rightarrow> 'a) \<Rightarrow> 'a list \<Rightarrow> 'a list" where
  "updateFirst P f [] = []"
| "updateFirst P f (x # xs) = (if P x then f x # xs else x # updateFirst P f xs)"

fun deleteFirst :: "('a \<Rightarrow> bool) \<Rightarrow> 'a list \<Rightarrow> 'a list" where
  "deleteFirst P [] = []"
| "deleteFirst P (x # xs) = (if P x then xs else x # deleteFirst P xs)"

text \<open>
  \<^verbatim>\<open>Application.create(doc)\<close>. The collection has two unique indexes: \<^verbatim>\<open>_id\<close>, and
  \<^verbatim>\<open>applicationSchema.index({ job: 1, applicant: 1 }, { unique: true })\<close>.
\<close>

definition Application_create :: "db \<Rightarrow> application \<Rightarrow> thrown + db" where
  "Application_create d a =
     (if list_ex (\<lambda>b. a_id b = a_id a \<or> (job b = job a \<and> applicant b = applicant a))
           (applications d)
      then Inl DuplicateKey
      else Inr (d\<lparr>applications := applications d @ [a]\<rparr>))"

text \<open>
  \<^verbatim>\<open>Job.findByIdAndUpdate(id, { $inc: { applicationCount: n } })\<close>: the first component is
  what the call returns with \<^verbatim>\<open>{ new: true }\<close>, as applicationsRoute.js calls it: the
  updated job, \<open>None\<close> (\<^verbatim>\<open>null\<close>) where no job has the id.
\<close>

definition Job_incApplicationCount :: "db \<Rightarrow> oid \<Rightarrow> int \<Rightarrow> job option \<times> db" where
  "Job_incApplicationCount d i n =
     (map_option (\<lambda>j. j\<lparr>applicationCount := applicationCount j + n\<rparr>) (Job_findById d i),
      d\<lparr>jobs := updateFirst (\<lambda>j. j_id j = i)
                   (\<lambda>j. j\<lparr>applicationCount := applicationCount j + n\<rparr>) (jobs d)\<rparr>)"

definition Application_findByIdAndDelete :: "db \<Rightarrow> oid \<Rightarrow> db" where
  "Application_findByIdAndDelete d i =
     d\<lparr>applications := deleteFirst (\<lambda>a. a_id a = i) (applications d)\<rparr>"

definition Job_findByIdAndDelete :: "db \<Rightarrow> oid \<Rightarrow> job option \<times> db" where
  "Job_findByIdAndDelete d i =
     (Job_findById d i, d\<lparr>jobs := deleteFirst (\<lambda>j. j_id j = i) (jobs d)\<rparr>)"

definition User_findByIdAndDelete :: "db \<Rightarrow> oid \<Rightarrow> db" where
  "User_findByIdAndDelete d i = d\<lparr>users := deleteFirst (\<lambda>u. u_id u = i) (users d)\<rparr>"

text \<open>\<^verbatim>\<open>Application.deleteMany({ job: id })\<close> and \<^verbatim>\<open>Application.deleteMany({ applicant: id })\<close>\<close>

definition Application_deleteMany_job :: "db \<Rightarrow> oid \<Rightarrow> db" where
  "Application_deleteMany_job d j = d\<lparr>applications := filter (\<lambda>a. job a \<noteq> j) (applications d)\<rparr>"

definition Application_deleteMany_applicant :: "db \<Rightarrow> oid \<Rightarrow> db" where
  "Application_deleteMany_applicant d u =
     d\<lparr>applications := filter (\<lambda>a. applicant a \<noteq> u) (applications d)\<rparr>"

text \<open>
  \<^verbatim>\<open>Application.findByIdAndUpdate(id, { status }, { new: true })\<close>: no validator runs
  (\<^verbatim>\<open>runValidators\<close> is not set), so the string is stored as it is.
\<close>

definition Application_setStatus :: "db \<Rightarrow> oid \<Rightarrow> string \<Rightarrow> application option \<times> db" where
  "Application_setStatus d i s =
     (map_option (\<lambda>a. a\<lparr>status := s\<rparr>) (Application_findById d i),
      d\<lparr>applications := updateFirst (\<lambda>a. a_id a = i) (\<lambda>a. a\<lparr>status := s\<rparr>) (applications d)\<rparr>)"

section \<open>middleware/auth.js\<close>

text \<open>\<^verbatim>\<open>req.header("Authorization")?.replace("Bearer ", "")\<close>\<close>

definition bearerToken :: "string option \<Rightarrow> string option" where
  "bearerToken hdr = map_option (removeFirst ''Bearer '') hdr"

text \<open>
  \<^verbatim>\<open>authenticate\<close>: the user it attaches to the request, or its 401 response. A subject
  that is no ObjectId makes \<^verbatim>\<open>User.findById\<close> throw, which the \<^verbatim>\<open>catch\<close> answers.
\<close>

definition authenticate :: "lib \<Rightarrow> interleave \<Rightarrow> db \<Rightarrow> string option \<Rightarrow> (failure + user) \<times> db" where
  "authenticate L iv d hdr =
     (case bearerToken hdr of
        None \<Rightarrow> (Inl (Fail 401 ''Access denied. No token provided.''), d)
      | Some token \<Rightarrow>
          if token = [] then (Inl (Fail 401 ''Access denied. No token provided.''), d)
          else
            (case jwt_verify L token of
               None \<Rightarrow> (Inl (Fail 401 ''Token is not valid.''), d)
             | Some subject \<Rightarrow>
                 (case castObjectId subject of
                    None \<Rightarrow> (Inl (Fail 401 ''Token is not valid.''), d)
                  | Some i \<Rightarrow>
                      (case User_findById d i of
                         None \<Rightarrow> (Inl (Fail 401 ''Token is not valid.''), iv 0 d)
                       | Some u \<Rightarrow> (Inr u, iv 0 d)))))"

text \<open>\<^verbatim>\<open>authorize(...roles)\<close>: the response that stops the request, if any.\<close>

definition authorize :: "string list \<Rightarrow> user option \<Rightarrow> failure option" where
  "authorize roles ru =
     (case ru of
        None \<Rightarrow> Some (Fail 401 ''Authentication required.'')
      | Some u \<Rightarrow>
          if role u \<notin> set roles
          then Some (Fail 403 ''Access denied. Insufficient permissions.'')
          else None)"

text \<open>
  A route \<^verbatim>\<open>router.verb(path, authenticate, [authorize(...)], handler)\<close>: Express runs the
  middleware in order, and the handler only when each of them called \<^verbatim>\<open>next()\<close>.
  \<open>allowed = None\<close> is a route without \<^verbatim>\<open>authorize\<close>.
\<close>

definition guarded ::
  "lib \<Rightarrow> string list option \<Rightarrow> (interleave \<Rightarrow> db \<Rightarrow> user \<Rightarrow> (failure + 'a) \<times> db)
     \<Rightarrow> interleave \<Rightarrow> db \<Rightarrow> string option \<Rightarrow> (failure + 'a) \<times> db" where
  "guarded L allowed handler iv d hdr =
     (case authenticate L iv d hdr of
        (Inl f, d1) \<Rightarrow> (Inl f, d1)
      | (Inr u, d1) \<Rightarrow>
          (case allowed of
             None \<Rightarrow> handler iv d1 u
           | Some roles \<Rightarrow>
               (case authorize roles (Some u) of
                  Some f \<Rightarrow> (Inl f, d1)
                | None \<Rightarrow> handler iv d1 u)))"

section \<open>routes/jobsRoute.js and routes/applicationsRoute.js: applying\<close>

text \<open>
  \<^verbatim>\<open>POST /api/jobs/:id/apply\<close> (authenticate, upload). \<open>newId\<close> is the ObjectId the driver
  gives the new document and \<open>now\<close> the clock's \<^verbatim>\<open>Date.now\<close>. The result of the counter's
  update is not read. \<^verbatim>\<open>populate\<close>, which only fills the response, is left out.
\<close>

definition jobs_apply ::
  "string \<Rightarrow> string option \<Rightarrow> string option \<Rightarrow> oid \<Rightarrow> nat
     \<Rightarrow> interleave \<Rightarrow> db \<Rightarrow> user \<Rightarrow> (failure + application) \<times> db" where
  "jobs_apply ident cover file newId now iv d u =
     (case castObjectId ident of
        None \<Rightarrow> (Inl (Fail 500 (messageOf CastError)), d)
      | Some j \<Rightarrow>
          (case Job_findById d j of
             None \<Rightarrow> (Inl (Fail 404 ''Job not found''), d)
           | Some found \<Rightarrow>
               let d1 = iv 1 d in
               (case Application_findOne d1 j (u_id u) of
                  Some existing \<Rightarrow> (Inl (Fail 400 ''Already applied for this job''), d1)
                | None \<Rightarrow>
                    let d2 = iv 2 d1;
                        a = \<lparr>a_id = newId, job = j, applicant = u_id u, status = ''pending'',
                             coverLetter = cover, resume = file, portfolio = None,
                             linkedin = None, github = None, expectedSalary = None,
                             availability = None, additionalInfo = None, appliedAt = now\<rparr>
                    in (case Application_create d2 a of
                          Inl e \<Rightarrow> (Inl (Fail 500 (messageOf e)), d2)
                        | Inr d3 \<Rightarrow>
                            (Inr a, snd (Job_incApplicationCount (iv 3 d3) j 1))))))"

text \<open>The body of \<^verbatim>\<open>POST /api/applications\<close>.\<close>

record applyBody =
  b_jobId :: "string option"
  b_coverLetter :: "string option"
  b_portfolio :: "string option"
  b_linkedin :: "string option"
  b_github :: "string option"
  b_expectedSalary :: "string option"
  b_availability :: "string option"
  b_additionalInfo :: "string option"

text \<open>The \<^verbatim>\<open>catch\<close> block of \<^verbatim>\<open>POST /api/applications\<close>.\<close>

fun applications_catch :: "thrown \<Rightarrow> failure" where
  "applications_catch DuplicateKey = Fail 400 ''You have already applied for this job''"
| "applications_catch (ValidationError m) = Fail 400 (''Validation error: '' @ m)"
| "applications_catch e = Fail 500 (messageOf e)"

text \<open>
  \<^verbatim>\<open>POST /api/applications\<close> (authenticate, upload). \<^verbatim>\<open>!x\<close> holds of an absent and of an
  empty string. The test \<^verbatim>\<open>!req.user || !req.user._id\<close> cannot hold after
  \<^verbatim>\<open>authenticate\<close>. Where the counter's update finds no job, the new application is
  deleted again.
\<close>

definition applications_create ::
  "applyBody \<Rightarrow> string option \<Rightarrow> oid \<Rightarrow> nat
     \<Rightarrow> interleave \<Rightarrow> db \<Rightarrow> user \<Rightarrow> (failure + application) \<times> db" where
  "applications_create b file newId now iv d u =
     (case b_jobId b of
        None \<Rightarrow> (Inl (Fail 400 ''jobId is required''), d)
      | Some jobId \<Rightarrow>
          if jobId = [] then (Inl (Fail 400 ''jobId is required''), d)
          else if b_coverLetter b = None \<or> b_coverLetter b = Some []
          then (Inl (Fail 400 ''coverLetter is required''), d)
          else
            (case castObjectId jobId of
               None \<Rightarrow> (Inl (Fail 400 ''Invalid jobId format''), d)
             | Some j \<Rightarrow>
                 (case Job_findById d j of
                    None \<Rightarrow> (Inl (Fail 404 ''Job not found''), d)
                  | Some found \<Rightarrow>
                      let d1 = iv 1 d in
                      (case Application_findOne d1 j (u_id u) of
                         Some existing \<Rightarrow>
                           (Inl (Fail 400 ''You have already applied for this job''), d1)
                       | None \<Rightarrow>
                           let d2 = iv 2 d1;
                               a = \<lparr>a_id = newId, job = j, applicant = u_id u,
                                    status = ''pending'', coverLetter = b_coverLetter b,
                                    resume = file, portfolio = b_portfolio b,
                                    linkedin = b_linkedin b, github = b_github b,
                                    expectedSalary = b_expectedSalary b,
                                    availability = b_availability b,
                                    additionalInfo = b_additionalInfo b, appliedAt = now\<rparr>
                           in (case Application_create d2 a of
                                 Inl e \<Rightarrow> (Inl (applications_catch e), d2)
                               | Inr d3 \<Rightarrow>
                                   (case Job_incApplicationCount (iv 3 d3) j 1 of
                                      (None, d4) \<Rightarrow>
                                        (Inl (Fail 404 ''Job not found during update''),
                                         Application_findByIdAndDelete (iv 4 d4) newId)
                                    | (Some updatedJob, d4) \<Rightarrow> (Inr a, d4)))))))"




section \<open>Deleting applications\<close>

text \<open>\<^verbatim>\<open>DELETE /api/applications/:id\<close> (authenticate): the applicant or an admin.\<close>

definition applications_delete ::
  "string \<Rightarrow> interleave \<Rightarrow> db \<Rightarrow> user \<Rightarrow> (failure + unit) \<times> db" where
  "applications_delete ident iv d u =
     (case castObjectId ident of
        None \<Rightarrow> (Inl (Fail 500 (messageOf CastError)), d)
      | Some i \<Rightarrow>
          (case Application_findById d i of
             None \<Rightarrow> (Inl (Fail 404 ''Application not found''), d)
           | Some a \<Rightarrow>
               if applicant a \<noteq> u_id u \<and> role u \<noteq> ''admin''
               then (Inl (Fail 403 ''Access denied''), d)
               else
                 let d1 = Application_findByIdAndDelete (iv 1 d) i
                 in (Inr (), snd (Job_incApplicationCount (iv 2 d1) (job a) (- 1)))))"

text \<open>\<^verbatim>\<open>DELETE /api/admin/applications/:id\<close> (authenticate, authorize("admin")).\<close>

definition admin_deleteApplication ::
  "string \<Rightarrow> interleave \<Rightarrow> db \<Rightarrow> user \<Rightarrow> (failure + unit) \<times> db" where
  "admin_deleteApplication ident iv d u =
     (case castObjectId ident of
        None \<Rightarrow> (Inl (Fail 500 (messageOf CastError)), d)
      | Some i \<Rightarrow>
          (case Application_findById d i of
             None \<Rightarrow> (Inl (Fail 404 ''Application not found''), d)
           | Some a \<Rightarrow> (Inr (), Application_findByIdAndDelete (iv 1 d) i)))"


section \<open>Deleting jobs and users\<close>



text \<open>\<^verbatim>\<open>DELETE /api/admin/users/:id\<close> (authenticate, authorize("admin")).\<close>

definition admin_deleteUser ::
  "string \<Rightarrow> interleave \<Rightarrow> db \<Rightarrow> user \<Rightarrow> (failure + unit) \<times> db" where
  "admin_deleteUser ident iv d u =
     (case castObjectId ident of
        None \<Rightarrow> (Inl (Fail 500 (messageOf CastError)), d)
      | Some i \<Rightarrow>
          (case User_findById d i of
             None \<Rightarrow> (Inl (Fail 404 ''User not found''), d)
           | Some target \<Rightarrow>
               if role target = ''admin''
               then (Inl (Fail 400 ''Cannot delete admin user''), d)
               else
                 let d1 = User_findByIdAndDelete (iv 1 d) i
                 in (Inr (), Application_deleteMany_applicant (iv 2 d1) i)))"

section \<open>Application status\<close>

text \<open>
  \<^verbatim>\<open>PUT /api/applications/:id/status\<close> (authenticate, authorize("admin")), for a body
  whose \<^verbatim>\<open>status\<close> is a string.
\<close>

definition applications_updateStatus ::
  "string \<Rightarrow> string \<Rightarrow> interleave \<Rightarrow> db \<Rightarrow> user \<Rightarrow> (failure + application) \<times> db" where
  "applications_updateStatus ident st iv d u =
     (case castObjectId ident of
        None \<Rightarrow> (Inl (Fail 500 (messageOf CastError)), d)
      | Some i \<Rightarrow>
          (case Application_setStatus d i st of
             (None, d1) \<Rightarrow> (Inl (Fail 404 ''Application not found''), d1)
           | (Some a, d1) \<Rightarrow> (Inr a, d1)))"

text \<open>
  \<^verbatim>\<open>PUT /api/admin/applications/:id/status\<close> (authenticate, authorize("admin")): the
  status is first tested against \<^verbatim>\<open>["pending", "accepted", "rejected"]\<close>.
\<close>

definition admin_updateStatus ::
  "string \<Rightarrow> string \<Rightarrow> interleave \<Rightarrow> db \<Rightarrow> user \<Rightarrow> (failure + application) \<times> db" where
  "admin_updateStatus ident st iv d u =
     (if st \<notin> set [''pending'', ''accepted'', ''rejected'']
      then (Inl (Fail 400 ''Invalid status''), d)
      else
        (case castObjectId ident of
           None \<Rightarrow> (Inl (Fail 500 (messageOf CastError)), d)
         | Some i \<Rightarrow>
             (case Application_setStatus d i st of
                (None, d1) \<Rightarrow> (Inl (Fail 404 ''Application not found''), d1)
              | (Some a, d1) \<Rightarrow> (Inr a, d1))))"

section \<open>routes/authRoute.js\<close>



text \<open>
  The validators of userSchema: \<^verbatim>\<open>required\<close> on name, email and password (which an
  empty string fails), \<^verbatim>\<open>enum: ["user", "admin"]\<close> on role.
\<close>

definition User_validate :: "user \<Rightarrow> thrown option" where
  "User_validate u =
     (if name u = [] then Some (ValidationError ''Path name is required.'')
      else if email u = [] then Some (ValidationError ''Path email is required.'')
      else if password u = [] then Some (ValidationError ''Path password is required.'')
      else if role u \<notin> set [''user'', ''admin'']
      then Some (ValidationError ''role is not a valid enum value.'')
      else None)"



text \<open>\<^verbatim>\<open>delete updates.key\<close>\<close>

definition deleteKey :: "string \<Rightarrow> (string \<times> 'v) list \<Rightarrow> (string \<times> 'v) list" where
  "deleteKey k kvs = filter (\<lambda>kv. fst kv \<noteq> k) kvs"

text \<open>
  \<^verbatim>\<open>User.findByIdAndUpdate(id, updates, { new: true, runValidators: true })\<close>: \<^verbatim>\<open>null\<close>
  where no user has the id; the unique index on email holds for the stored document.
\<close>

definition User_findByIdAndUpdate ::
  "lib \<Rightarrow> db \<Rightarrow> oid \<Rightarrow> (string \<times> jval) list \<Rightarrow> thrown + user option \<times> db" where
  "User_findByIdAndUpdate L d i updates =
     (case User_findById d i of
        None \<Rightarrow> Inr (None, d)
      | Some doc \<Rightarrow>
          (case user_update L updates doc of
             Inl e \<Rightarrow> Inl e
           | Inr doc' \<Rightarrow>
               if list_ex (\<lambda>v. u_id v \<noteq> i \<and> email v = email doc') (users d)
               then Inl DuplicateKey
               else Inr (Some doc',
                         d\<lparr>users := updateFirst (\<lambda>v. u_id v = i) (\<lambda>v. doc') (users d)\<rparr>)))"

text \<open>
  \<^verbatim>\<open>PUT /api/auth/profile\<close> (authenticate). The body is a JSON object, a list of keys
  and values. \<^verbatim>\<open>select("-password")\<close>, which only trims the response, is left out.
\<close>

definition auth_updateProfile ::
  "lib \<Rightarrow> (string \<times> jval) list \<Rightarrow> interleave \<Rightarrow> db \<Rightarrow> user \<Rightarrow> (failure + user option) \<times> db" where
  "auth_updateProfile L body iv d u =
     (let updates = deleteKey ''role'' (deleteKey ''password'' body)
      in case User_findByIdAndUpdate L d (u_id u) updates of
           Inl e \<Rightarrow> (Inl (Fail 500 (messageOf e)), d)
         | Inr (r, d1) \<Rightarrow> (Inr r, d1))"

section \<open>routes/jobsRoute.js: the job list\<close>








section \<open>Invariants of the store\<close>

text \<open>The unique index on (job, applicant).\<close>

definition applicationsUnique :: "db \<Rightarrow> bool" where
  "applicationsUnique d = distinct (map (\<lambda>a. (job a, applicant a)) (applications d))"

text \<open>The unique index on the \<^verbatim>\<open>_id\<close> of jobs.\<close>

definition jobIdsUnique :: "db \<Rightarrow> bool" where
  "jobIdsUnique d = distinct (map j_id (jobs d))"

text \<open>The unique index on the \<^verbatim>\<open>_id\<close> of users.\<close>

definition userIdsUnique :: "db \<Rightarrow> bool" where
  "userIdsUnique d = distinct (map u_id (users d))"

text \<open>The number of applications that reference a job, and the counters that equal it.\<close>

definition liveCount :: "db \<Rightarrow> oid \<Rightarrow> int" where
  "liveCount d j = int (length (filter (\<lambda>a. job a = j) (applications d)))"

definition countersAgree :: "db \<Rightarrow> bool" where
  "countersAgree d = list_all (\<lambda>j. applicationCount j = liveCount d (j_id j)) (jobs d)"



section \<open>Library instances and sample data\<close>

text \<open>
  A regular expression engine for the patterns made of ordinary characters and the
  wildcard \<^verbatim>\<open>.\<close> (any character but a newline), matched anywhere in the subject
  without regard to case, as the store's engine matches them.
\<close>

fun matchHere :: "string \<Rightarrow> string \<Rightarrow> bool" where
  "matchHere [] s = True"
| "matchHere (p # ps) [] = False"
| "matchHere (p # ps) (c # cs) =
     ((if p = CHR ''.'' then c \<noteq> CHR 0x0A else lowerChar p = lowerChar c) \<and> matchHere ps cs)"

fun dotSearch :: "string \<Rightarrow> string \<Rightarrow> bool" where
  "dotSearch p [] = matchHere p []"
| "dotSearch p (c # cs) = (matchHere p (c # cs) \<or> dotSearch p cs)"

text \<open>
  Mongoose on the update documents made of string-valued top-level paths and a
  \<^verbatim>\<open>$set\<close> of such paths: a top-level path is set as under \<^verbatim>\<open>$set\<close>, a path outside
  the schema is dropped (strict mode), and the validators run on the result. Every
  other document (another operator, an object where a string is expected) is answered
  with an error.
\<close>

fun setPath :: "string \<times> string \<Rightarrow> user \<Rightarrow> user" where
  "setPath (k, v) u =
     (if k = ''name'' then u\<lparr>name := v\<rparr>
      else if k = ''email'' then u\<lparr>email := v\<rparr>
      else if k = ''password'' then u\<lparr>password := v\<rparr>
      else if k = ''role'' then u\<lparr>role := v\<rparr>
      else if k \<in> set [''profile.phone'', ''profile.address'', ''profile.resume'',
                        ''profile.experience'', ''profile.education'']
      then u\<lparr>profile := (k, v) # filter (\<lambda>kv. fst kv \<noteq> k) (profile u)\<rparr>
      else u)"

fun assignments :: "(string \<times> jval) list \<Rightarrow> (string \<times> string) list option" where
  "assignments [] = Some []"
| "assignments ((k, v) # kvs) =
     (case assignments kvs of
        None \<Rightarrow> None
      | Some rest \<Rightarrow>
          (case v of
             JStr s \<Rightarrow> if prefix ''$'' k then None else Some ((k, s) # rest)
           | JObj kss \<Rightarrow> if k = ''$set'' then Some (kss @ rest) else None))"

definition setUpdate :: "(string \<times> jval) list \<Rightarrow> user \<Rightarrow> thrown + user" where
  "setUpdate updates u =
     (case assignments updates of
        None \<Rightarrow> Inl (ValidationError ''update document not supported'')
      | Some kvs \<Rightarrow>
          let u' = fold setPath kvs u
          in case User_validate u' of Some e \<Rightarrow> Inl e | None \<Rightarrow> Inr u')"

text \<open>A token is the text \<^verbatim>\<open>jwt:\<close> before its subject; a hash the text \<^verbatim>\<open>hash:\<close> before the password.\<close>

definition stubLib :: lib where
  "stubLib =
     \<lparr>jwt_verify = (\<lambda>t. if prefix ''jwt:'' t then Some (drop 4 t) else None),
      jwt_sign = (\<lambda>i. ''jwt:'' @ i),
      bcrypt_hash = (\<lambda>p. ''hash:'' @ p),
      regex_i = (\<lambda>p. Some (dotSearch p)),
      user_update = setUpdate\<rparr>"

definition aliceId :: oid where
  "aliceId = ''0000000000000000000000a1''"

definition rootId :: oid where
  "rootId = ''0000000000000000000000a2''"

definition bobId :: oid where
  "bobId = ''0000000000000000000000a3''"

definition cookId :: oid where
  "cookId = ''0000000000000000000000b1''"

definition firstId :: oid where
  "firstId = ''0000000000000000000000c1''"

definition secondId :: oid where
  "secondId = ''0000000000000000000000c2''"

definition alice :: user where
  "alice = \<lparr>u_id = aliceId, name = ''Alice'', email = ''alice@example.org'',
            password = ''hash:secret'', role = ''user'', profile = []\<rparr>"

definition bob :: user where
  "bob = \<lparr>u_id = bobId, name = ''Bob'', email = ''bob@example.org'',
          password = ''hash:hidden'', role = ''user'', profile = []\<rparr>"

definition root :: user where
  "root = \<lparr>u_id = rootId, name = ''Root'', email = ''root@example.org'',
           password = ''hash:admin'', role = ''admin'', profile = []\<rparr>"

definition cook :: job where
  "cook = \<lparr>j_id = cookId, title = ''Chef'', company = ''Bistro'', location = ''Lyon'',
           jobType = ''full-time'', description = ''Cooking'', category = None,
           postedBy = rootId, isActive = True, applicationCount = 0, createdAt = 5\<rparr>"

definition aliceApplication :: application where
  "aliceApplication =
     \<lparr>a_id = firstId, job = cookId, applicant = aliceId, status = ''pending'',
      coverLetter = Some ''Hello'', resume = None, portfolio = None, linkedin = None,
      github = None, expectedSalary = None, availability = None, additionalInfo = None,
      appliedAt = 7\<rparr>"


text \<open>Three users and a job without applications; the same after Alice applied.\<close>

definition openDb :: db where
  "openDb = \<lparr>users = [alice, bob, root], jobs = [cook], applications = []\<rparr>"

definition appliedDb :: db where
  "appliedDb = \<lparr>users = [alice, bob, root], jobs = [cook\<lparr>applicationCount := 1\<rparr>],
               applications = [aliceApplication]\<rparr>"

definition aliceToken :: "string option" where
  "aliceToken = Some ''Bearer jwt:0000000000000000000000a1''"

definition rootToken :: "string option" where
  "rootToken = Some ''Bearer jwt:0000000000000000000000a2''"

definition bobToken :: "string option" where
  "bobToken = Some ''Bearer jwt:0000000000000000000000a3''"

text \<open>
  Two schedules of other requests. In \<open>jobVanishes j\<close> another request deletes job \<open>j\<close>
  (the last write of \<^verbatim>\<open>DELETE /api/admin/jobs/:id\<close>) after the handler's third store
  operation. In \<open>applyMeanwhile n ident newId u\<close> the request
  \<^verbatim>\<open>POST /api/jobs/:id/apply\<close> of user \<open>u\<close> runs, whole, after the handler's \<open>n\<close>-th
  store operation.
\<close>

definition jobVanishes :: "oid \<Rightarrow> interleave" where
  "jobVanishes j = (\<lambda>k d. if k = 3 then snd (Job_findByIdAndDelete d j) else d)"

definition applyMeanwhile :: "nat \<Rightarrow> string \<Rightarrow> oid \<Rightarrow> user \<Rightarrow> interleave" where
  "applyMeanwhile n ident newId u =
     (\<lambda>k d. if k = n then snd (jobs_apply ident None None newId 9 quiet d u) else d)"


text \<open>A body of \<^verbatim>\<open>POST /api/applications\<close> for the sample job.\<close>

definition helloBody :: applyBody where
  "helloBody = \<lparr>b_jobId = Some cookId, b_coverLetter = Some ''Hello'', b_portfolio = None,
                b_linkedin = None, b_github = None, b_expectedSalary = None,
                b_availability = None, b_additionalInfo = None\<rparr>"









section \<open>Facts about lists and the sample data\<close>

lemma find_holds: "find P xs = Some x \<Longrightarrow> P x \<and> x \<in> set xs"
  by (induction xs) (auto split: if_splits)

lemma cast_sample:
  "castObjectId aliceId = Some aliceId" "castObjectId rootId = Some rootId"
  "castObjectId cookId = Some cookId" "castObjectId firstId = Some firstId"
  "castObjectId secondId = Some secondId" "castObjectId bobId = Some bobId"
  by (simp_all add: castObjectId_def aliceId_def rootId_def cookId_def firstId_def
        secondId_def bobId_def isHexDigit_def toLowerCase_def lowerChar_def)

lemma quiet_apply: "quiet k d = d"
  by (simp add: quiet_def)

lemma sample_tokens:
  "bearerToken aliceToken = Some ''jwt:0000000000000000000000a1''"
  "bearerToken rootToken = Some ''jwt:0000000000000000000000a2''"
  "bearerToken bobToken = Some ''jwt:0000000000000000000000a3''"
  "jwt_verify stubLib ''jwt:0000000000000000000000a1'' = Some aliceId"
  "jwt_verify stubLib ''jwt:0000000000000000000000a2'' = Some rootId"
  "jwt_verify stubLib ''jwt:0000000000000000000000a3'' = Some bobId"
  by (simp_all add: bearerToken_def aliceToken_def rootToken_def bobToken_def stubLib_def
        aliceId_def rootId_def bobId_def)

lemma sample_users:
  "User_findById appliedDb aliceId = Some alice" "User_findById appliedDb rootId = Some root"
  "User_findById openDb aliceId = Some alice" "User_findById openDb rootId = Some root"
  by (simp_all add: User_findById_def appliedDb_def openDb_def alice_def root_def bob_def
        aliceId_def rootId_def bobId_def)

lemma deleteFirst_find_None:
  "distinct (map f xs) \<Longrightarrow> find (\<lambda>x. f x = i) (deleteFirst (\<lambda>x. f x = i) xs) = None"
  by (induction xs) (auto simp: find_None_iff image_iff)

lemma deleteFirst_set:
  "distinct (map f xs) \<Longrightarrow> find (\<lambda>x. f x = i) xs = Some t
     \<Longrightarrow> set (deleteFirst (\<lambda>x. f x = i) xs) = set xs - {t}"
  by (induction xs) (auto simp: image_iff split: if_splits dest: find_holds)

lemma updateFirst_find:
  "find (\<lambda>x. f x = i) xs = Some a \<Longrightarrow> f (g a) = i
     \<Longrightarrow> find (\<lambda>x. f x = i) (updateFirst (\<lambda>x. f x = i) g xs) = Some (g a)"
  by (induction xs) (auto split: if_splits)

lemma sample_authenticate:
  "authenticate stubLib quiet appliedDb rootToken = (Inr root, appliedDb)"
  "authenticate stubLib quiet appliedDb aliceToken = (Inr alice, appliedDb)"
  "authenticate stubLib quiet openDb rootToken = (Inr root, openDb)"
  "authenticate stubLib quiet openDb aliceToken = (Inr alice, openDb)"
  by (simp_all add: authenticate_def sample_tokens cast_sample sample_users quiet_def)

lemma sample_jobs:
  "Job_findById openDb cookId = Some cook"
  "Job_findById appliedDb cookId = Some (cook\<lparr>applicationCount := 1\<rparr>)"
  by (simp_all add: Job_findById_def openDb_def appliedDb_def cook_def)

lemma sample_counters:
  "countersAgree appliedDb" "countersAgree openDb" "jobIdsUnique appliedDb"
  "jobIdsUnique openDb"
  by (simp_all add: countersAgree_def liveCount_def jobIdsUnique_def appliedDb_def openDb_def
        cook_def aliceApplication_def)

lemma sample_roles:
  "role root = ''admin''" "role alice = ''user''" "u_id alice = aliceId" "u_id root = rootId"
  "role bob = ''user''" "u_id bob = bobId"
  by (simp_all add: root_def alice_def bob_def)

lemma sample_unique: "userIdsUnique appliedDb" "userIdsUnique openDb"
  by (simp_all add: userIdsUnique_def appliedDb_def openDb_def alice_def root_def bob_def
        aliceId_def rootId_def bobId_def)

lemma sample_applications:
  "Application_findById appliedDb firstId = Some aliceApplication"
  by (simp add: Application_findById_def appliedDb_def aliceApplication_def)

section \<open>Access control\<close>

text \<open>
  C7. On a route behind \<^verbatim>\<open>authenticate\<close>, a request without a bearer token (no
  Authorization header, or nothing left of it once \<^verbatim>\<open>Bearer \<close> is removed), with a token
  that \<^verbatim>\<open>jwt.verify\<close> rejects (malformed, expired, bad signature), or with a token whose
  subject is the identifier of no user, is answered 401. The answer and the store do not
  depend on the handler, which is any handler here: it is not reached, and the store is
  as it was, up to what other requests did during the user lookup. On a route that is
  also behind \<^verbatim>\<open>authorize(roles)\<close>, a request whose token is valid and resolves to a
  user whose role is not among \<open>roles\<close> is answered 403.
\<close>

theorem authenticated_routes_reject:
  fixes handler :: "interleave \<Rightarrow> db \<Rightarrow> user \<Rightarrow> (failure + 'a) \<times> db"
  shows
  "((bearerToken hdr = None \<or> bearerToken hdr = Some []
      \<or> (\<exists>t. bearerToken hdr = Some t
            \<and> (jwt_verify L t = None
                 \<or> (\<exists>s. jwt_verify L t = Some s
                       \<and> (\<forall>u \<in> set (users d). castObjectId s \<noteq> Some (u_id u))))))
     \<longrightarrow> (\<exists>m. guarded L allowed handler iv d hdr = (Inl (Fail 401 m), d)
              \<or> guarded L allowed handler iv d hdr = (Inl (Fail 401 m), iv 0 d)))
   \<and> ((bearerToken hdr' = Some t' \<and> t' \<noteq> [] \<and> jwt_verify L t' = Some s'
        \<and> castObjectId s' = Some i' \<and> User_findById d i' = Some u'
        \<and> role u' \<notin> set roles)
     \<longrightarrow> guarded L (Some roles) handler iv d hdr'
           = (Inl (Fail 403 ''Access denied. Insufficient permissions.''), iv 0 d))"
  by (auto simp: guarded_def authenticate_def authorize_def User_findById_def find_None_iff
      split: option.splits sum.splits prod.splits dest: find_holds)

text \<open>
  The route \<^verbatim>\<open>DELETE /api/admin/users/:id\<close> without a header, and with Alice's token:
  Alice is no admin.
\<close>

theorem authenticated_routes_reject_witness:
  "bearerToken None = None
   \<and> (\<exists>m. guarded stubLib (Some [''admin'']) (admin_deleteUser aliceId) quiet appliedDb None
            = (Inl (Fail 401 m), appliedDb))
   \<and> (bearerToken aliceToken = Some ''jwt:0000000000000000000000a1''
      \<and> ''jwt:0000000000000000000000a1'' \<noteq> []
      \<and> jwt_verify stubLib ''jwt:0000000000000000000000a1'' = Some aliceId
      \<and> castObjectId aliceId = Some aliceId
      \<and> User_findById appliedDb aliceId = Some alice
      \<and> role alice \<notin> set [''admin''])
   \<and> guarded stubLib (Some [''admin'']) (admin_deleteUser aliceId) quiet appliedDb aliceToken
       = (Inl (Fail 403 ''Access denied. Insufficient permissions.''), appliedDb)"
proof -
  have none: "bearerToken None = None"
    by (simp add: bearerToken_def)
  have valid: "bearerToken aliceToken = Some ''jwt:0000000000000000000000a1''
      \<and> ''jwt:0000000000000000000000a1'' \<noteq> []
      \<and> jwt_verify stubLib ''jwt:0000000000000000000000a1'' = Some aliceId
      \<and> castObjectId aliceId = Some aliceId
      \<and> User_findById appliedDb aliceId = Some alice
      \<and> role alice \<notin> set [''admin'']"
    by (simp add: sample_tokens sample_users cast_sample alice_def)
  from authenticated_routes_reject
         [where hdr = None and hdr' = aliceToken and L = stubLib and d = appliedDb
            and allowed = "Some [''admin'']" and handler = "admin_deleteUser aliceId"
            and iv = quiet and t' = "''jwt:0000000000000000000000a1''" and s' = aliceId
            and i' = aliceId and u' = alice and roles = "[''admin'']"]
       none valid
  show ?thesis
    by (simp add: quiet_def)
qed

section \<open>Deleting a user\<close>

text \<open>
  C6. \<^verbatim>\<open>DELETE /api/admin/users/:id\<close>, called by an admin for an existing user, with no
  other request running. If the target's role is admin, the answer is 400 and the store
  is unchanged. Otherwise the answer is the success message, the target is no longer in
  the users collection (every other user is), no application names the target as its
  applicant, and the applications left are the others, in their order; the jobs are
  untouched.
\<close>

theorem admin_deleteUser_cascade:
  "authenticate L quiet d hdr = (Inr u, d) \<and> role u = ''admin''
     \<and> castObjectId ident = Some i \<and> User_findById d i = Some target \<and> userIdsUnique d
   \<longrightarrow>
     (role target = ''admin'' \<longrightarrow>
        guarded L (Some [''admin'']) (admin_deleteUser ident) quiet d hdr
          = (Inl (Fail 400 ''Cannot delete admin user''), d))
   \<and> (role target \<noteq> ''admin'' \<longrightarrow>
        (\<exists>d'. guarded L (Some [''admin'']) (admin_deleteUser ident) quiet d hdr = (Inr (), d')
              \<and> User_findById d' i = None
              \<and> set (users d') = set (users d) - {target}
              \<and> (\<forall>a \<in> set (applications d'). applicant a \<noteq> i)
              \<and> applications d' = filter (\<lambda>a. applicant a \<noteq> i) (applications d)
              \<and> jobs d' = jobs d))"
  by (auto simp: guarded_def authorize_def admin_deleteUser_def quiet_def User_findById_def
        User_findByIdAndDelete_def Application_deleteMany_applicant_def userIdsUnique_def
        deleteFirst_find_None deleteFirst_set)

text \<open>The admin Root tries to delete Root, then deletes Alice, who has one application.\<close>

theorem admin_deleteUser_cascade_witness:
  "(authenticate stubLib quiet appliedDb rootToken = (Inr root, appliedDb)
      \<and> role root = ''admin'' \<and> userIdsUnique appliedDb)
   \<and> (castObjectId rootId = Some rootId \<and> User_findById appliedDb rootId = Some root)
   \<and> guarded stubLib (Some [''admin'']) (admin_deleteUser rootId) quiet appliedDb rootToken
        = (Inl (Fail 400 ''Cannot delete admin user''), appliedDb)
   \<and> (castObjectId aliceId = Some aliceId \<and> User_findById appliedDb aliceId = Some alice
        \<and> role alice \<noteq> ''admin'')
   \<and> (\<exists>d'. guarded stubLib (Some [''admin'']) (admin_deleteUser aliceId) quiet appliedDb rootToken
              = (Inr (), d')
          \<and> User_findById d' aliceId = None
          \<and> set (users d') = set (users appliedDb) - {alice}
          \<and> (\<forall>a \<in> set (applications d'). applicant a \<noteq> aliceId)
          \<and> applications d' = filter (\<lambda>a. applicant a \<noteq> aliceId) (applications appliedDb)
          \<and> jobs d' = jobs appliedDb)"
proof -
  have admin: "authenticate stubLib quiet appliedDb rootToken = (Inr root, appliedDb)
      \<and> role root = ''admin'' \<and> userIdsUnique appliedDb"
    by (simp add: sample_authenticate sample_roles sample_unique)
  have t1: "castObjectId rootId = Some rootId \<and> User_findById appliedDb rootId = Some root"
    by (simp add: cast_sample sample_users)
  have t2: "castObjectId aliceId = Some aliceId \<and> User_findById appliedDb aliceId = Some alice
        \<and> role alice \<noteq> ''admin''"
    by (simp add: cast_sample sample_users sample_roles)
  from admin_deleteUser_cascade
         [where L = stubLib and d = appliedDb and hdr = rootToken and u = root
            and ident = rootId and i = rootId and target = root]
       admin_deleteUser_cascade
         [where L = stubLib and d = appliedDb and hdr = rootToken and u = root
            and ident = aliceId and i = aliceId and target = alice]
       admin t1 t2
  show ?thesis
    by (simp add: sample_roles)
qed

section \<open>Status updates\<close>

lemma setStatus_found:
  assumes "Application_findById d i = Some a"
  shows "Application_setStatus d i st
           = (Some (a\<lparr>status := st\<rparr>),
              d\<lparr>applications := updateFirst (\<lambda>x. a_id x = i) (\<lambda>x. x\<lparr>status := st\<rparr>)
                                   (applications d)\<rparr>)"
    and "Application_findById (snd (Application_setStatus d i st)) i = Some (a\<lparr>status := st\<rparr>)"
proof -
  from assms have f: "find (\<lambda>x. a_id x = i) (applications d) = Some a"
    by (simp add: Application_findById_def)
  show "Application_setStatus d i st
           = (Some (a\<lparr>status := st\<rparr>),
              d\<lparr>applications := updateFirst (\<lambda>x. a_id x = i) (\<lambda>x. x\<lparr>status := st\<rparr>)
                                   (applications d)\<rparr>)"
    using assms by (simp add: Application_setStatus_def)
  from f have "a_id a = i"
    by (auto dest: find_holds)
  then have "a_id (a\<lparr>status := st\<rparr>) = i"
    by simp
  from updateFirst_find[OF f, of "\<lambda>x. x\<lparr>status := st\<rparr>", OF this]
  show "Application_findById (snd (Application_setStatus d i st)) i = Some (a\<lparr>status := st\<rparr>)"
    by (simp add: Application_setStatus_def Application_findById_def)
qed

text \<open>
  C4, as the code has it. Both status routes are behind \<^verbatim>\<open>authorize("admin")\<close>: a user
  who is no admin gets 403 on either. For an admin and an existing application in any
  status, \<^verbatim>\<open>PUT /api/applications/:id/status\<close> stores the status string of the request,
  whatever it is, so each of pending, reviewed, accepted and rejected; the application
  read back has that status. \<^verbatim>\<open>PUT /api/admin/applications/:id/status\<close> does the same
  for pending, accepted and rejected, and answers 400 to every other value, reviewed
  among them, leaving the store unchanged. Neither route looks at the current status.
\<close>

theorem status_update_routes:
  "(authenticate L quiet d hdr = (Inr u, d) \<and> role u = ''admin''
      \<and> castObjectId ident = Some i \<and> Application_findById d i = Some a
    \<longrightarrow>
      (\<exists>d'. guarded L (Some [''admin'']) (applications_updateStatus ident st) quiet d hdr
               = (Inr (a\<lparr>status := st\<rparr>), d')
           \<and> Application_findById d' i = Some (a\<lparr>status := st\<rparr>))
    \<and> (st \<in> set [''pending'', ''accepted'', ''rejected''] \<longrightarrow>
         (\<exists>d'. guarded L (Some [''admin'']) (admin_updateStatus ident st) quiet d hdr
                  = (Inr (a\<lparr>status := st\<rparr>), d')
              \<and> Application_findById d' i = Some (a\<lparr>status := st\<rparr>)))
    \<and> (st \<notin> set [''pending'', ''accepted'', ''rejected''] \<longrightarrow>
         guarded L (Some [''admin'']) (admin_updateStatus ident st) quiet d hdr
           = (Inl (Fail 400 ''Invalid status''), d)))
   \<and> (authenticate L quiet d hdr' = (Inr u', d) \<and> role u' \<noteq> ''admin''
    \<longrightarrow>
      guarded L (Some [''admin'']) (applications_updateStatus ident st) quiet d hdr'
        = (Inl (Fail 403 ''Access denied. Insufficient permissions.''), d)
    \<and> guarded L (Some [''admin'']) (admin_updateStatus ident st) quiet d hdr'
        = (Inl (Fail 403 ''Access denied. Insufficient permissions.''), d))"
proof -
  have ok: "Application_findById d i = Some a \<Longrightarrow>
      \<exists>d'. Application_setStatus d i st = (Some (a\<lparr>status := st\<rparr>), d')
           \<and> Application_findById d' i = Some (a\<lparr>status := st\<rparr>)"
    using setStatus_found[of d i a st] by (cases "Application_setStatus d i st") auto
  show ?thesis
    using ok
    by (auto simp: guarded_def authorize_def applications_updateStatus_def
          admin_updateStatus_def)
qed

text \<open>
  Root sets Alice's pending application to reviewed on the applications route and to
  accepted on the admin route; the admin route refuses reviewed; Alice is refused on both.
\<close>

theorem status_update_routes_witness:
  "(authenticate stubLib quiet appliedDb rootToken = (Inr root, appliedDb)
      \<and> role root = ''admin'' \<and> castObjectId firstId = Some firstId
      \<and> Application_findById appliedDb firstId = Some aliceApplication)
   \<and> (\<exists>d'. guarded stubLib (Some [''admin'']) (applications_updateStatus firstId ''reviewed'')
               quiet appliedDb rootToken
              = (Inr (aliceApplication\<lparr>status := ''reviewed''\<rparr>), d')
          \<and> Application_findById d' firstId = Some (aliceApplication\<lparr>status := ''reviewed''\<rparr>))
   \<and> ''accepted'' \<in> set [''pending'', ''accepted'', ''rejected'']
   \<and> (\<exists>d'. guarded stubLib (Some [''admin'']) (admin_updateStatus firstId ''accepted'')
               quiet appliedDb rootToken
              = (Inr (aliceApplication\<lparr>status := ''accepted''\<rparr>), d')
          \<and> Application_findById d' firstId = Some (aliceApplication\<lparr>status := ''accepted''\<rparr>))
   \<and> ''reviewed'' \<notin> set [''pending'', ''accepted'', ''rejected'']
   \<and> guarded stubLib (Some [''admin'']) (admin_updateStatus firstId ''reviewed'')
        quiet appliedDb rootToken
       = (Inl (Fail 400 ''Invalid status''), appliedDb)
   \<and> (authenticate stubLib quiet appliedDb aliceToken = (Inr alice, appliedDb)
        \<and> role alice \<noteq> ''admin'')
   \<and> guarded stubLib (Some [''admin'']) (applications_updateStatus firstId ''accepted'')
        quiet appliedDb aliceToken
       = (Inl (Fail 403 ''Access denied. Insufficient permissions.''), appliedDb)
   \<and> guarded stubLib (Some [''admin'']) (admin_updateStatus firstId ''accepted'')
        quiet appliedDb aliceToken
       = (Inl (Fail 403 ''Access denied. Insufficient permissions.''), appliedDb)"
proof -
  have admin: "authenticate stubLib quiet appliedDb rootToken = (Inr root, appliedDb)
      \<and> role root = ''admin'' \<and> castObjectId firstId = Some firstId
      \<and> Application_findById appliedDb firstId = Some aliceApplication"
    by (simp add: sample_authenticate sample_roles cast_sample sample_applications)
  have other: "authenticate stubLib quiet appliedDb aliceToken = (Inr alice, appliedDb)
        \<and> role alice \<noteq> ''admin''"
    by (simp add: sample_authenticate sample_roles)
  have vals: "''accepted'' \<in> set [''pending'', ''accepted'', ''rejected'']"
    "''reviewed'' \<notin> set [''pending'', ''accepted'', ''rejected'']"
    by simp_all
  from status_update_routes
         [where L = stubLib and d = appliedDb and hdr = rootToken and u = root
            and ident = firstId and i = firstId and a = aliceApplication and st = "''reviewed''"
            and hdr' = aliceToken and u' = alice]
       status_update_routes
         [where L = stubLib and d = appliedDb and hdr = rootToken and u = root
            and ident = firstId and i = firstId and a = aliceApplication and st = "''accepted''"
            and hdr' = aliceToken and u' = alice]
       admin other vals
  show ?thesis
    by blast
qed

text \<open>
  C4 as the specification words it, that an admin's request with any of the four
  values succeeds, fails on the admin route: Root's request to set Alice's existing
  application to reviewed is answered 400 and nothing is stored.
\<close>

theorem admin_status_rejects_reviewed:
  "Application_findById appliedDb firstId = Some aliceApplication
   \<and> guarded stubLib (Some [''admin'']) (admin_updateStatus firstId ''reviewed'') quiet
        appliedDb rootToken
       = (Inl (Fail 400 ''Invalid status''), appliedDb)"
  by (simp add: guarded_def sample_authenticate authorize_def sample_roles
        admin_updateStatus_def sample_applications)

section \<open>The application counter\<close>

lemma updateFirst_map:
  "distinct (map k xs) \<Longrightarrow>
     updateFirst (\<lambda>x. k x = i) g xs = map (\<lambda>x. if k x = i then g x else x) xs"
proof (induction xs)
  case Nil
  then show ?case by simp
next
  case (Cons a xs)
  show ?case
  proof (cases "k a = i")
    case True
    with Cons.prems have "\<forall>x \<in> set xs. k x \<noteq> i"
      by (auto simp: image_iff)
    then have "map (\<lambda>x. if k x = i then g x else x) xs = xs"
      by (simp add: map_idI)
    with True show ?thesis by simp
  next
    case False
    with Cons show ?thesis by simp
  qed
qed

lemma filter_deleteFirst_length:
  "find Q xs = Some a \<Longrightarrow>
     int (length (filter P (deleteFirst Q xs)))
       = int (length (filter P xs)) - (if P a then 1 else 0)"
  by (induction xs) (auto split: if_splits)

lemma incCount_jobs:
  "jobIdsUnique d \<Longrightarrow>
     jobs (snd (Job_incApplicationCount d j n))
       = map (\<lambda>x. if j_id x = j then x\<lparr>applicationCount := applicationCount x + n\<rparr> else x)
           (jobs d)"
  by (simp add: Job_incApplicationCount_def jobIdsUnique_def updateFirst_map)

lemma incCount_frame:
  "applications (snd (Job_incApplicationCount d j n)) = applications d"
  "users (snd (Job_incApplicationCount d j n)) = users d"
  by (simp_all add: Job_incApplicationCount_def)

lemma incCount_missing:
  "fst (Job_incApplicationCount d j n) = None \<longleftrightarrow> Job_findById d j = None"
  "None = fst (Job_incApplicationCount d j n) \<longleftrightarrow> Job_findById d j = None"
  by (auto simp: Job_incApplicationCount_def)

lemma findJob_frame: "Job_findById (d\<lparr>applications := xs\<rparr>) j = Job_findById d j"
  by (simp add: Job_findById_def)

lemma pair_parts: "f = (r, d') \<Longrightarrow> r = fst f \<and> d' = snd f"
  by simp

text \<open>
  The counter's update restores the invariant after a change of the applications that
  moves the live count of job \<open>j\<close>, and of no other job, by \<open>n\<close>.
\<close>

lemma counters_step:
  assumes u: "jobIdsUnique d" and c: "countersAgree d" and js: "jobs d' = jobs d"
    and live: "\<And>x. liveCount d' x = liveCount d x + (if x = j then n else 0)"
  shows "countersAgree (snd (Job_incApplicationCount d' j n))"
proof -
  have u': "jobIdsUnique d'"
    using u js by (simp add: jobIdsUnique_def)
  have l: "\<And>x. liveCount (snd (Job_incApplicationCount d' j n)) x = liveCount d' x"
    by (simp add: liveCount_def incCount_frame)
  show ?thesis
    using c
    by (auto simp: countersAgree_def l live incCount_jobs[OF u'] js list_all_iff)
qed

lemma counters_created:
  assumes u: "jobIdsUnique d" and c: "countersAgree d" and j: "job a = j"
  shows "countersAgree
           (snd (Job_incApplicationCount (d\<lparr>applications := applications d @ [a]\<rparr>) j 1))"
  by (rule counters_step[OF u c]) (simp_all add: liveCount_def j)

lemma counters_deleted:
  assumes u: "jobIdsUnique d" and c: "countersAgree d"
    and f: "Application_findById d i = Some a"
  shows "countersAgree
           (snd (Job_incApplicationCount (Application_findByIdAndDelete d i) (job a) (- 1)))"
proof -
  from f have f': "find (\<lambda>x. a_id x = i) (applications d) = Some a"
    by (simp add: Application_findById_def)
  show ?thesis
    by (rule counters_step[OF u c])
       (simp_all add: liveCount_def Application_findByIdAndDelete_def
          filter_deleteFirst_length[OF f'])
qed

text \<open>
  With no other request running, both apply routes and the applicant's delete route
  keep every job's \<^verbatim>\<open>applicationCount\<close> equal to its live count.
\<close>

lemma jobs_apply_counters:
  assumes "jobIdsUnique d" and "countersAgree d"
  shows "countersAgree (snd (jobs_apply ident cover file newId now quiet d u))"
  using assms
  by (auto simp: jobs_apply_def quiet_def Application_create_def Let_def counters_created
        split: option.splits sum.splits if_splits)

lemma applications_create_counters:
  assumes "jobIdsUnique d" and "countersAgree d"
  shows "countersAgree (snd (applications_create b file newId now quiet d u))"
  using assms
  by (auto simp: applications_create_def quiet_def Application_create_def Let_def
        counters_created incCount_missing findJob_frame dest!: pair_parts
        split: option.splits sum.splits if_splits prod.splits)

lemma applications_delete_counters:
  assumes "jobIdsUnique d" and "countersAgree d"
  shows "countersAgree (snd (applications_delete ident quiet d u))"
  using assms
  by (auto simp: applications_delete_def quiet_def Let_def counters_deleted
        split: option.splits if_splits)

text \<open>
  C2. The claim holds of the three routes above and fails on
  \<^verbatim>\<open>DELETE /api/admin/applications/:id\<close>, which deletes the application and never
  updates the job. The counters agree before Root deletes Alice's application on the
  admin route; afterwards the job's \<^verbatim>\<open>applicationCount\<close> is still 1 and no application
  references the job. The same deletion on \<^verbatim>\<open>DELETE /api/applications/:id\<close> decrements
  the counter and the counters agree.
\<close>

theorem admin_deleteApplication_leaves_counter:
  "countersAgree appliedDb
   \<and> guarded stubLib (Some [''admin'']) (admin_deleteApplication firstId) quiet appliedDb
        rootToken
       = (Inr (), appliedDb\<lparr>applications := []\<rparr>)
   \<and> map applicationCount (jobs (appliedDb\<lparr>applications := []\<rparr>)) = [1]
   \<and> liveCount (appliedDb\<lparr>applications := []\<rparr>) cookId = 0
   \<and> \<not> countersAgree (appliedDb\<lparr>applications := []\<rparr>)
   \<and> guarded stubLib None (applications_delete firstId) quiet appliedDb rootToken
       = (Inr (), openDb)
   \<and> countersAgree openDb"
proof -
  have admin:
    "guarded stubLib (Some [''admin'']) (admin_deleteApplication firstId) quiet appliedDb
        rootToken
       = (Inr (), appliedDb\<lparr>applications := []\<rparr>)"
    by (simp add: guarded_def sample_authenticate authorize_def sample_roles
          admin_deleteApplication_def cast_sample sample_applications quiet_apply
          Application_findByIdAndDelete_def)
       (simp add: appliedDb_def aliceApplication_def)
  have own: "guarded stubLib None (applications_delete firstId) quiet appliedDb rootToken
       = (Inr (), openDb)"
    by (simp add: guarded_def sample_authenticate applications_delete_def cast_sample
          sample_applications sample_roles quiet_apply Application_findByIdAndDelete_def
          Job_incApplicationCount_def)
       (simp add: appliedDb_def openDb_def aliceApplication_def cook_def)
  have drift: "map applicationCount (jobs (appliedDb\<lparr>applications := []\<rparr>)) = [1]"
    "liveCount (appliedDb\<lparr>applications := []\<rparr>) cookId = 0"
    "\<not> countersAgree (appliedDb\<lparr>applications := []\<rparr>)"
    by (simp_all add: appliedDb_def cook_def liveCount_def countersAgree_def)
  show ?thesis
    using admin own drift sample_counters by simp
qed

section \<open>Applying while the job is deleted\<close>

lemma schedules:
  "jobVanishes j 3 d = snd (Job_findByIdAndDelete d j)"
  "k \<noteq> 3 \<Longrightarrow> jobVanishes j k d = d"
  "applyMeanwhile n ident newId u n d = snd (jobs_apply ident None None newId 9 quiet d u)"
  "k \<noteq> n \<Longrightarrow> applyMeanwhile n ident newId u k d = d"
  by (simp_all add: jobVanishes_def applyMeanwhile_def)

lemma sample_authenticate_scheduled:
  "authenticate stubLib (jobVanishes j) openDb aliceToken = (Inr alice, openDb)"
  "n \<noteq> 0 \<Longrightarrow> authenticate stubLib (applyMeanwhile n ident newId u) appliedDb rootToken
     = (Inr root, appliedDb)"
  by (simp_all add: authenticate_def sample_tokens cast_sample sample_users jobVanishes_def
        applyMeanwhile_def)


lemma sample_nonempty: "cookId \<noteq> []"
  by (simp add: cookId_def)

text \<open>
  C3. \<^verbatim>\<open>POST /api/jobs/:id/apply\<close> does not read the result of the counter's update and
  has no rollback. Alice applies to the sample job, and the job is deleted between the
  insert of her application and the update of the counter: the request is answered 201
  with the application, which stays in the store although its job is gone and no counter
  was incremented. \<^verbatim>\<open>POST /api/applications\<close>, under the same schedule, finds no job to
  update, deletes the application it created and answers 404.
\<close>

theorem jobs_apply_keeps_orphan:
  "guarded stubLib None (jobs_apply cookId (Some ''Hello'') None firstId 7)
      (jobVanishes cookId) openDb aliceToken
     = (Inr aliceApplication,
        \<lparr>users = [alice, bob, root], jobs = [], applications = [aliceApplication]\<rparr>)
   \<and> guarded stubLib None (applications_create helloBody None firstId 7)
        (jobVanishes cookId) openDb aliceToken
       = (Inl (Fail 404 ''Job not found during update''),
          \<lparr>users = [alice, bob, root], jobs = [], applications = []\<rparr>)"
proof -
  have a: "\<lparr>a_id = firstId, job = cookId, applicant = aliceId, status = ''pending'',
            coverLetter = Some ''Hello'', resume = None, portfolio = None, linkedin = None,
            github = None, expectedSalary = None, availability = None,
            additionalInfo = None, appliedAt = 7\<rparr> = aliceApplication"
    by (simp add: aliceApplication_def)
  have created: "Application_create openDb aliceApplication
      = Inr (openDb\<lparr>applications := [aliceApplication]\<rparr>)"
    by (simp add: Application_create_def openDb_def)
  have none: "Application_findOne openDb cookId aliceId = None"
    by (simp add: Application_findOne_def openDb_def)
  have gone: "Job_findByIdAndDelete (openDb\<lparr>applications := [aliceApplication]\<rparr>) cookId
      = (Some cook, \<lparr>users = [alice, bob, root], jobs = [], applications = [aliceApplication]\<rparr>)"
    by (simp add: Job_findByIdAndDelete_def Job_findById_def openDb_def cook_def)
  have inc: "Job_incApplicationCount
        \<lparr>users = [alice, bob, root], jobs = [], applications = [aliceApplication]\<rparr> cookId 1
      = (None, \<lparr>users = [alice, bob, root], jobs = [], applications = [aliceApplication]\<rparr>)"
    by (simp add: Job_incApplicationCount_def Job_findById_def)
  have rolled: "Application_findByIdAndDelete
        \<lparr>users = [alice, bob, root], jobs = [], applications = [aliceApplication]\<rparr> firstId
      = \<lparr>users = [alice, bob, root], jobs = [], applications = []\<rparr>"
    by (simp add: Application_findByIdAndDelete_def aliceApplication_def)
  have one: "guarded stubLib None (jobs_apply cookId (Some ''Hello'') None firstId 7)
      (jobVanishes cookId) openDb aliceToken
     = (Inr aliceApplication,
        \<lparr>users = [alice, bob, root], jobs = [], applications = [aliceApplication]\<rparr>)"
    by (simp add: guarded_def sample_authenticate_scheduled jobs_apply_def cast_sample
          sample_jobs sample_roles schedules Let_def none a created gone inc)
  have two: "guarded stubLib None (applications_create helloBody None firstId 7)
        (jobVanishes cookId) openDb aliceToken
       = (Inl (Fail 404 ''Job not found during update''),
          \<lparr>users = [alice, bob, root], jobs = [], applications = []\<rparr>)"
    by (simp add: guarded_def sample_authenticate_scheduled applications_create_def
          helloBody_def cast_sample sample_jobs sample_roles schedules Let_def none a
          sample_nonempty
          created gone inc rolled)
  from one two show ?thesis by simp
qed

section \<open>Deleting a job\<close>







section \<open>Updating the profile\<close>

lemma setPath_keeps:
  "fst kv \<noteq> ''role'' \<Longrightarrow> fst kv \<noteq> ''password'' \<Longrightarrow>
     role (setPath kv u) = role u \<and> password (setPath kv u) = password u
       \<and> u_id (setPath kv u) = u_id u"
  by (cases kv) simp

lemma fold_setPath_keeps:
  "\<forall>kv \<in> set kvs. fst kv \<noteq> ''role'' \<and> fst kv \<noteq> ''password'' \<Longrightarrow>
     role (fold setPath kvs u) = role u \<and> password (fold setPath kvs u) = password u"
  by (induction kvs arbitrary: u) (simp_all add: setPath_keeps)

lemma assignments_plain:
  "\<forall>kv \<in> set body. \<exists>s. snd kv = JStr s \<Longrightarrow> assignments body = Some kvs
     \<Longrightarrow> fst ` set kvs \<subseteq> fst ` set body"
proof (induction body arbitrary: kvs)
  case Nil
  then show ?case by simp
next
  case (Cons kv body)
  obtain k v where kv: "kv = (k, v)" by (cases kv)
  from Cons.prems(1) kv obtain s where v: "v = JStr s" by auto
  from Cons.prems(2) kv v obtain rest where r: "assignments body = Some rest"
    and kvs: "kvs = (k, s) # rest"
    by (auto split: option.splits if_splits)
  from Cons.IH[OF _ r] Cons.prems(1) have "fst ` set rest \<subseteq> fst ` set body"
    by simp
  with kvs kv show ?case by auto
qed

text \<open>
  Where every value of the payload is a string, the stored password and role are not
  changed by a profile update that succeeds: the two \<^verbatim>\<open>delete\<close> statements do their work.
\<close>

lemma updateProfile_plain_keeps:
  assumes plain: "\<forall>kv \<in> set body. \<exists>s. snd kv = JStr s"
    and doc: "User_findById d (u_id u) = Some doc"
    and run: "auth_updateProfile stubLib body iv d u = (Inr (Some u'), d')"
  shows "role u' = role doc \<and> password u' = password doc"
proof -
  let ?upd = "deleteKey ''role'' (deleteKey ''password'' body)"
  have plain': "\<forall>kv \<in> set ?upd. \<exists>s. snd kv = JStr s"
    using plain by (simp add: deleteKey_def)
  from run doc obtain kvs where a: "assignments ?upd = Some kvs"
    and u': "u' = fold setPath kvs doc"
    by (auto simp: auth_updateProfile_def User_findByIdAndUpdate_def stubLib_def setUpdate_def
          Let_def split: option.splits sum.splits if_splits)
  from assignments_plain[OF plain' a]
  have "\<forall>kv \<in> set kvs. fst kv \<noteq> ''role'' \<and> fst kv \<noteq> ''password''"
    by (auto simp: deleteKey_def)
  from fold_setPath_keeps[OF this] u' show ?thesis
    by simp
qed

text \<open>
  C8. The handler deletes the keys \<^verbatim>\<open>password\<close> and \<^verbatim>\<open>role\<close> of the payload and hands
  the rest to \<^verbatim>\<open>findByIdAndUpdate\<close> as the update document. An update operator is a key
  of its own, so the payload \<^verbatim>\<open>{ "$set": { "role": "admin", "password": "plain" } }\<close>
  passes the two \<^verbatim>\<open>delete\<close> statements untouched, and Mongoose sets both paths: Alice,
  a user, makes herself an admin and stores a password of her choice, unhashed. The same
  two entries at the top level of the payload are stripped, and only the name changes.
\<close>

theorem updateProfile_set_operator:
  "role alice = ''user'' \<and> password alice = ''hash:secret''
   \<and> guarded stubLib None
        (auth_updateProfile stubLib
           [(''$set'', JObj [(''role'', ''admin''), (''password'', ''plain'')])])
        quiet openDb aliceToken
       = (Inr (Some (alice\<lparr>password := ''plain'', role := ''admin''\<rparr>)),
          openDb\<lparr>users := [alice\<lparr>password := ''plain'', role := ''admin''\<rparr>, bob, root]\<rparr>)
   \<and> guarded stubLib None
        (auth_updateProfile stubLib
           [(''role'', JStr ''admin''), (''password'', JStr ''plain''), (''name'', JStr ''Al'')])
        quiet openDb aliceToken
       = (Inr (Some (alice\<lparr>name := ''Al''\<rparr>)),
          openDb\<lparr>users := [alice\<lparr>name := ''Al''\<rparr>, bob, root]\<rparr>)"
proof -
  have op: "setUpdate [(''$set'', JObj [(''role'', ''admin''), (''password'', ''plain'')])] alice
      = Inr (alice\<lparr>password := ''plain'', role := ''admin''\<rparr>)"
    by (simp add: setUpdate_def User_validate_def alice_def)
  have plain: "setUpdate [(''name'', JStr ''Al'')] alice = Inr (alice\<lparr>name := ''Al''\<rparr>)"
    by (simp add: setUpdate_def User_validate_def alice_def)
  have strip: "deleteKey ''role'' (deleteKey ''password''
        [(''role'', JStr ''admin''), (''password'', JStr ''plain''), (''name'', JStr ''Al'')])
      = [(''name'', JStr ''Al'')]"
    "deleteKey ''role'' (deleteKey ''password''
        [(''$set'', JObj [(''role'', ''admin''), (''password'', ''plain'')])])
      = [(''$set'', JObj [(''role'', ''admin''), (''password'', ''plain'')])]"
    by (simp_all add: deleteKey_def)
  have lib: "user_update stubLib = setUpdate"
    by (simp add: stubLib_def)
  have store: "users openDb = [alice, bob, root]" "u_id bob \<noteq> aliceId" "u_id root \<noteq> aliceId"
    "email alice = ''alice@example.org''" "email bob \<noteq> ''alice@example.org''"
    "email root \<noteq> ''alice@example.org''" "password alice = ''hash:secret''"
    by (simp_all add: openDb_def alice_def bob_def root_def aliceId_def bobId_def rootId_def)
  show ?thesis
    by (simp add: guarded_def sample_authenticate auth_updateProfile_def strip
          User_findByIdAndUpdate_def sample_roles sample_users lib op plain store)
qed

section \<open>Registration\<close>








section \<open>One application per job and applicant\<close>











text \<open>
  The routes that delete applications or set a status add no application, and keep the
  index as well.
\<close>

lemma removals_keep_index:
  assumes "applicationsUnique d"
  shows "applicationsUnique (Application_deleteMany_job d j)"
    and "applicationsUnique (Application_deleteMany_applicant d i)"
    and "applicationsUnique (snd (Application_setStatus d i st))"
proof -
  have same: "map (\<lambda>a. (job a, applicant a))
                (updateFirst (\<lambda>a. a_id a = i) (\<lambda>a. a\<lparr>status := st\<rparr>) xs)
              = map (\<lambda>a. (job a, applicant a)) xs" for xs
    by (induction xs) simp_all
  from assms show "applicationsUnique (Application_deleteMany_job d j)"
    by (simp add: applicationsUnique_def Application_deleteMany_job_def distinct_map_filter)
  from assms show "applicationsUnique (Application_deleteMany_applicant d i)"
    by (simp add: applicationsUnique_def Application_deleteMany_applicant_def
          distinct_map_filter)
  from assms show "applicationsUnique (snd (Application_setStatus d i st))"
    by (simp add: applicationsUnique_def Application_setStatus_def same)
qed




section \<open>Searching the job list\<close>














end
